theory Spec2Isabelle
  imports Complex_Main "HOL-Library.Char_ord" "HOL-Library.List_Lexorder"
begin

section \<open>The embedding normalizer of SupabaseStorage\<close>

text \<open>
  \<^verbatim>\<open>private static readonly VECTOR_DIMENSIONS = 1536;\<close>
\<close>

definition VECTOR_DIMENSIONS :: nat where
  "VECTOR_DIMENSIONS = 1536"

text \<open>
  \<^verbatim>\<open>Array.prototype.slice(start, end)\<close> for bounds that are not negative: the elements at
  the indices \<open>start \<le> i < end\<close> that exist, as a new array.
\<close>

definition slice :: "nat \<Rightarrow> nat \<Rightarrow> 'a list \<Rightarrow> 'a list" where
  "slice start end xs = drop start (take end xs)"

text \<open>
  The padding loop
  \<^verbatim>\<open>while (normalized.length < VECTOR_DIMENSIONS) { normalized.push(0); }\<close>
  on the value of the array \<open>normalized\<close>. The elements are JavaScript numbers; the
  normalizer computes nothing with them and only writes the constant \<open>0\<close>, so the
  element type is any type with a zero.
\<close>

function pad_loop :: "'a::zero list \<Rightarrow> 'a list" where
  "pad_loop normalized =
     (if length normalized < VECTOR_DIMENSIONS then pad_loop (normalized @ [0])
      else normalized)"
  by pat_completeness auto
termination
  by (relation "measure (\<lambda>normalized. VECTOR_DIMENSIONS - length normalized)") auto

declare pad_loop.simps [simp del]

text \<open>
  \<^verbatim>\<open>normalizeEmbedding(embedding: number[]): number[]\<close>, on the values of the arrays:
  the three branches in the order of the source.
\<close>

definition normalizeEmbedding :: "'a::zero list \<Rightarrow> 'a list" where
  "normalizeEmbedding embedding =
     (if length embedding = VECTOR_DIMENSIONS then embedding
      else if length embedding > VECTOR_DIMENSIONS then slice 0 VECTOR_DIMENSIONS embedding
      else pad_loop embedding)"

subsection \<open>The normalizer on a store of arrays\<close>

text \<open>
  JavaScript arrays are objects: a variable holds a reference, and \<^verbatim>\<open>push\<close> changes the
  array every holder of the reference sees. The store is the list of all arrays
  allocated so far and a reference is an index into it. \<^verbatim>\<open>slice\<close> and the spread
  \<^verbatim>\<open>[...embedding]\<close> allocate a new array; \<^verbatim>\<open>push\<close> updates the array at a reference in
  place.
\<close>

type_synonym 'a store = "'a list list"
type_synonym ref = nat

definition alloc :: "'a store \<Rightarrow> 'a list \<Rightarrow> ref \<times> 'a store" where
  "alloc h arr = (length h, h @ [arr])"

definition push :: "'a store \<Rightarrow> ref \<Rightarrow> 'a \<Rightarrow> 'a store" where
  "push h r x = h[r := (h ! r) @ [x]]"

text \<open>
  The loop on the store. A reference of a running program is always allocated; the
  test \<open>r < length h\<close> says so, and the loop of a reference that is not allocated
  (which no program has) is the identity.
\<close>

function pad_loop_h :: "'a::zero store \<Rightarrow> ref \<Rightarrow> 'a store" where
  "pad_loop_h h r =
     (if r < length h \<and> length (h ! r) < VECTOR_DIMENSIONS then pad_loop_h (push h r 0) r
      else h)"
  by pat_completeness auto
termination
  by (relation "measure (\<lambda>(h, r). VECTOR_DIMENSIONS - length (h ! r))")
     (auto simp: push_def)

declare pad_loop_h.simps [simp del]

text \<open>
  The normalizer on the store: it takes the reference \<open>embedding\<close> and returns the
  reference it returns in the source, with the store after the call.
\<close>

definition normalizeEmbedding_h :: "'a::zero store \<Rightarrow> ref \<Rightarrow> ref \<times> 'a store" where
  "normalizeEmbedding_h h embedding =
     (if length (h ! embedding) = VECTOR_DIMENSIONS then (embedding, h)
      else if length (h ! embedding) > VECTOR_DIMENSIONS
        then alloc h (slice 0 VECTOR_DIMENSIONS (h ! embedding))
      else (let (normalized, h1) = alloc h (h ! embedding)
            in (normalized, pad_loop_h h1 normalized)))"

section \<open>Notes, rows and errors\<close>

text \<open>
  Modelled from the spec: the \<^verbatim>\<open>Note\<close> interface of \<^verbatim>\<open>./storage-interface\<close>, which is
  not among the sources. Its fields are the ones every operation of the class copies out
  of a row. Identifiers are uuids in text form, timestamps are epoch milliseconds and the
  numbers of an embedding are the elements of type \<open>'n\<close>. \<open>tags\<close> is copied from the
  row as it is, so it is absent where the row's column is null.
\<close>

type_synonym uuid = string

record note_source =
  url :: string
  title :: string
  timestamp :: int

record 'n Note =
  note_id :: uuid
  content :: string
  embedding :: "'n list"
  tags :: "string list option"
  source :: note_source
  createdAt :: int
  updatedAt :: int

text \<open>
  A row of the table \<^verbatim>\<open>notes\<close>, with the columns of the schema in the comment of
  \<^verbatim>\<open>initialize\<close>. The two timestamp columns hold the epoch milliseconds that
  \<^verbatim>\<open>new Date(d.created_at).getTime()\<close> reads from them.
\<close>

record 'n row =
  row_id :: uuid
  row_content :: string
  row_embedding :: "'n list"
  row_tags :: "string list option"
  row_source :: note_source
  created_at :: int
  updated_at :: int

text \<open>The argument of \<^verbatim>\<open>saveNote\<close>: \<^verbatim>\<open>Omit<Note, 'id' | 'createdAt' | 'updatedAt'>\<close>.\<close>

record 'n NewNote =
  new_content :: string
  new_embedding :: "'n list"
  new_tags :: "string list"
  new_source :: note_source

text \<open>
  The argument of \<^verbatim>\<open>updateNote\<close>: \<^verbatim>\<open>Partial<Note>\<close>, every field present or
  \<^verbatim>\<open>undefined\<close>.
\<close>

record 'n PartialNote =
  upd_id :: "uuid option"
  upd_content :: "string option"
  upd_embedding :: "'n list option"
  upd_tags :: "string list option"
  upd_source :: "note_source option"
  upd_createdAt :: "int option"
  upd_updatedAt :: "int option"

text \<open>
  What the class throws: \<^verbatim>\<open>new Error(message)\<close> of its own, or the error object of a
  response of the store, thrown as it is.
\<close>

record PostgrestError =
  message :: string
  details :: string
  hint :: string
  code :: string

datatype error = Error string | Postgrest PostgrestError

type_synonym 'a response = "PostgrestError + 'a"

section \<open>The store behind the client\<close>

text \<open>
  The requests the class sends, on a table that is the list of its rows. The store
  answers every request (no transport failure), and an answer is \<open>Inr\<close> the data or
  \<open>Inl\<close> the error of the response. The errors are the ones the schema gives: the
  primary key on \<^verbatim>\<open>id\<close>, the type \<^verbatim>\<open>UUID\<close> of that column, the width of the column
  \<^verbatim>\<open>embedding vector(1536)\<close>, the type \<^verbatim>\<open>int\<close> of a row count, and \<^verbatim>\<open>PGRST116\<close> of
  \<^verbatim>\<open>.single()\<close> when the result is not exactly one row.
\<close>

definition pg_error :: "string \<Rightarrow> string \<Rightarrow> PostgrestError" where
  "pg_error c m = \<lparr>message = m, details = [], hint = [], code = c\<rparr>"

subsection \<open>Identifiers of the type uuid\<close>

text \<open>
  The column \<^verbatim>\<open>id\<close> has the type \<^verbatim>\<open>UUID\<close>. A filter on it gives the store a text, which
  the store reads as a uuid before it compares: an opening brace or none, sixteen bytes of
  two hexadecimal digits each in either case, a hyphen allowed after every second byte but
  the last, the closing brace if there was an opening one, and nothing after that. A text
  that is not of this form is the error \<^verbatim>\<open>22P02\<close>. The store writes a uuid in one form
  only, lower case in the groups 8-4-4-4-12, and that text is what a row holds as its id.
\<close>

definition is_xdigit :: "char \<Rightarrow> bool" where
  "is_xdigit c = (c \<in> set ''0123456789abcdefABCDEF'')"

definition to_lower :: "char \<Rightarrow> char" where
  "to_lower c = (case map_of (zip ''ABCDEF'' ''abcdef'') c of Some l \<Rightarrow> l | None \<Rightarrow> c)"

text \<open>
  The bytes from the byte of index \<open>i\<close> on: the digits read, in lower case, and the text
  that is left.
\<close>

fun read_bytes :: "nat \<Rightarrow> string \<Rightarrow> (string \<times> string) option" where
  "read_bytes i src =
     (if 16 \<le> i then Some ([], src)
      else (case src of
              a # b # rest \<Rightarrow>
                if is_xdigit a \<and> is_xdigit b
                then (case (case rest of
                              c # r \<Rightarrow> if c = CHR ''-'' \<and> i mod 2 = 1 \<and> i < 15
                                       then read_bytes (i + 1) r else read_bytes (i + 1) rest
                            | [] \<Rightarrow> read_bytes (i + 1) rest) of
                        None \<Rightarrow> None
                      | Some (ds, remaining) \<Rightarrow> Some (to_lower a # to_lower b # ds, remaining))
                else None
            | _ \<Rightarrow> None))"

declare read_bytes.simps [simp del]

definition uuid_out :: "string \<Rightarrow> uuid" where
  "uuid_out ds = take 8 ds @ ''-'' @ take 4 (drop 8 ds) @ ''-'' @ take 4 (drop 12 ds) @ ''-'' @
                 take 4 (drop 16 ds) @ ''-'' @ drop 20 ds"

definition uuid_in :: "string \<Rightarrow> uuid option" where
  "uuid_in str =
     (let braces = (case str of c # r \<Rightarrow> c = CHR ''{'' | [] \<Rightarrow> False);
          src = (if braces then tl str else str)
      in case read_bytes 0 src of
           None \<Rightarrow> None
         | Some (ds, rest) \<Rightarrow>
             if rest = (if braces then ''}'' else []) then Some (uuid_out ds) else None)"

definition invalid_uuid :: "string \<Rightarrow> PostgrestError" where
  "invalid_uuid i =
     pg_error ''22P02'' (''invalid input syntax for type uuid: '' @ [CHR 0x22] @ i @ [CHR 0x22])"

subsection \<open>Numbers of the type float8\<close>

text \<open>
  The distance of two vectors and the similarity are of the type \<^verbatim>\<open>float8\<close>, which has
  the value NaN: the cosine distance from or to a vector of zeros is NaN (zero divided by
  zero). The store compares NaN as equal to itself and greater than every other number,
  in a filter and in an order alike, and arithmetic with NaN gives NaN.
\<close>

datatype float8 = Finite real | NaN

instantiation float8 :: linorder
begin

definition less_eq_float8 :: "float8 \<Rightarrow> float8 \<Rightarrow> bool" where
  "less_eq_float8 x y =
     (case y of NaN \<Rightarrow> True | Finite b \<Rightarrow> (case x of NaN \<Rightarrow> False | Finite a \<Rightarrow> a \<le> b))"

definition less_float8 :: "float8 \<Rightarrow> float8 \<Rightarrow> bool" where
  "less_float8 x y = (x \<le> y \<and> \<not> y \<le> x)"

instance
  by standard (auto simp: less_eq_float8_def less_float8_def split: float8.splits)

end

definition f8_minus :: "float8 \<Rightarrow> float8 \<Rightarrow> float8" where
  "f8_minus x y = (case (x, y) of (Finite a, Finite b) \<Rightarrow> Finite (a - b) | _ \<Rightarrow> NaN)"

subsection \<open>The requests\<close>

definition single :: "'a list \<Rightarrow> 'a response" where
  "single rows =
     (case rows of
        [r] \<Rightarrow> Inr r
      | _ \<Rightarrow> Inl (pg_error ''PGRST116'' ''JSON object requested, multiple (or no) rows returned''))"

text \<open>
  \<^verbatim>\<open>.insert({content, embedding, tags, source}).select().single()\<close>: the store assigns
  the id (\<^verbatim>\<open>uuid_generate_v4()\<close>) and both timestamps (\<^verbatim>\<open>NOW()\<close>); \<open>new_id\<close> and
  \<open>server_now\<close> are the values it draws.
\<close>

definition db_insert ::
  "uuid \<Rightarrow> int \<Rightarrow> 'n row list \<Rightarrow> string \<Rightarrow> 'n list \<Rightarrow> string list \<Rightarrow> note_source
     \<Rightarrow> 'n row response \<times> 'n row list" where
  "db_insert new_id server_now table c e t s =
     (if length e \<noteq> 1536 then (Inl (pg_error ''22000'' ''expected 1536 dimensions''), table)
      else if new_id \<in> row_id ` set table
        then (Inl (pg_error ''23505'' ''duplicate key value violates unique constraint''), table)
      else (let r = \<lparr>row_id = new_id, row_content = c, row_embedding = e, row_tags = Some t,
                       row_source = s, created_at = server_now, updated_at = server_now\<rparr>
            in (Inr r, table @ [r])))"

text \<open>\<^verbatim>\<open>.select('*').eq('id', id).single()\<close>\<close>

definition db_select_by_id :: "'n row list \<Rightarrow> string \<Rightarrow> 'n row response" where
  "db_select_by_id table i =
     (case uuid_in i of
        None \<Rightarrow> Inl (invalid_uuid i)
      | Some u \<Rightarrow> single (filter (\<lambda>r. row_id r = u) table))"

text \<open>\<^verbatim>\<open>.select('*').order('created_at', { ascending: false })\<close>\<close>

definition db_select_newest_first :: "'n row list \<Rightarrow> 'n row list" where
  "db_select_newest_first table = sort_key (\<lambda>r. - created_at r) table"

text \<open>
  \<^verbatim>\<open>.delete().eq('id', id)\<close>: a DELETE with a filter; the rows that match are removed,
  and a filter that matches no row is no error.
\<close>

definition db_delete_eq :: "'n row list \<Rightarrow> string \<Rightarrow> unit response \<times> 'n row list" where
  "db_delete_eq table i =
     (case uuid_in i of
        None \<Rightarrow> (Inl (invalid_uuid i), table)
      | Some u \<Rightarrow> (Inr (), filter (\<lambda>r. row_id r \<noteq> u) table))"

text \<open>\<^verbatim>\<open>.delete().neq('id', id)\<close>: the rows whose id differs are removed.\<close>

definition db_delete_neq :: "'n row list \<Rightarrow> string \<Rightarrow> unit response \<times> 'n row list" where
  "db_delete_neq table i =
     (case uuid_in i of
        None \<Rightarrow> (Inl (invalid_uuid i), table)
      | Some u \<Rightarrow> (Inr (), filter (\<lambda>r. \<not> row_id r \<noteq> u) table))"

text \<open>
  The body of an update request. \<^verbatim>\<open>JSON.stringify\<close> drops a key whose value is
  \<^verbatim>\<open>undefined\<close>, so only the keys that are present reach the store; \<^verbatim>\<open>updated_at\<close> is
  always present.
\<close>

record 'n row_patch =
  set_content :: "string option"
  set_embedding :: "'n list option"
  set_tags :: "string list option"
  set_source :: "note_source option"
  set_updated_at :: int

definition apply_patch :: "'n row_patch \<Rightarrow> 'n row \<Rightarrow> 'n row" where
  "apply_patch p r =
     r\<lparr>row_content := (case set_content p of None \<Rightarrow> row_content r | Some c \<Rightarrow> c),
       row_embedding := (case set_embedding p of None \<Rightarrow> row_embedding r | Some e \<Rightarrow> e),
       row_tags := (case set_tags p of None \<Rightarrow> row_tags r | Some t \<Rightarrow> Some t),
       row_source := (case set_source p of None \<Rightarrow> row_source r | Some s \<Rightarrow> s),
       updated_at := set_updated_at p\<rparr>"

text \<open>
  \<^verbatim>\<open>.update(body).eq('id', id).select().single()\<close>: a request that fails changes
  nothing.
\<close>

definition db_update_by_id ::
  "'n row list \<Rightarrow> string \<Rightarrow> 'n row_patch \<Rightarrow> 'n row response \<times> 'n row list" where
  "db_update_by_id table i p =
     (case uuid_in i of
        None \<Rightarrow> (Inl (invalid_uuid i), table)
      | Some u \<Rightarrow>
          if (case set_embedding p of None \<Rightarrow> False | Some e \<Rightarrow> length e \<noteq> 1536)
            then (Inl (pg_error ''22000'' ''expected 1536 dimensions''), table)
          else (case single (filter (\<lambda>r. row_id r = u) table) of
                  Inl e \<Rightarrow> (Inl e, table)
                | Inr r \<Rightarrow>
                    (Inr (apply_patch p r),
                     map (\<lambda>r. if row_id r = u then apply_patch p r else r) table)))"

text \<open>
  \<^verbatim>\<open>.select('*').textSearch('content', query)\<close>: the full-text search of the store is
  the parameter \<open>fts\<close>, which rejects a query or gives the predicate on \<^verbatim>\<open>content\<close> that
  the query stands for.
\<close>

definition db_text_search ::
  "(string \<Rightarrow> (string \<Rightarrow> bool) response) \<Rightarrow> 'n row list \<Rightarrow> string \<Rightarrow> 'n row list response" where
  "db_text_search fts table query =
     (case fts query of
        Inl e \<Rightarrow> Inl e
      | Inr matches \<Rightarrow> Inr (filter (\<lambda>r. matches (row_content r)) table))"

text \<open>
  The function \<^verbatim>\<open>match_notes(query_embedding vector(1536), match_threshold float,
  match_count int)\<close> of the setup script:
  \<^verbatim>\<open>
  select ..., 1 - (notes.embedding <=> query_embedding) as similarity
  from notes
  where 1 - (notes.embedding <=> query_embedding) > match_threshold
  order by notes.embedding <=> query_embedding
  limit match_count;
  \<close>
  The distance operator \<^verbatim>\<open><=>\<close> of the vector index (cosine distance) is the parameter
  \<open>distance\<close>, with values of the type \<^verbatim>\<open>float8\<close>; the filter and the order compare them
  as the store does, NaN greatest. \<^verbatim>\<open>match_count\<close> is an \<^verbatim>\<open>int\<close> of 32 bits: a number out
  of its range is rejected, and so is a negative \<^verbatim>\<open>limit\<close>. The result rows carry the
  similarity column.
\<close>

definition similarity :: "('n list \<Rightarrow> 'n list \<Rightarrow> float8) \<Rightarrow> 'n list \<Rightarrow> 'n list \<Rightarrow> float8" where
  "similarity distance query_embedding e = f8_minus (Finite 1) (distance e query_embedding)"

definition match_notes ::
  "('n list \<Rightarrow> 'n list \<Rightarrow> float8) \<Rightarrow> 'n row list \<Rightarrow> 'n list \<Rightarrow> float8 \<Rightarrow> int
     \<Rightarrow> ('n row \<times> float8) list response" where
  "match_notes distance table query_embedding match_threshold match_count =
     (if length query_embedding \<noteq> 1536 then Inl (pg_error ''22000'' ''expected 1536 dimensions'')
      else if match_count < - (2 ^ 31) \<or> 2 ^ 31 \<le> match_count
        then Inl (pg_error ''22003'' ''value out of range for type integer'')
      else if match_count < 0 then Inl (pg_error ''2201W'' ''LIMIT must not be negative'')
      else Inr (map (\<lambda>r. (r, similarity distance query_embedding (row_embedding r)))
                 (take (nat match_count)
                   (sort_key (\<lambda>r. distance (row_embedding r) query_embedding)
                     (filter (\<lambda>r. similarity distance query_embedding (row_embedding r)
                                    > match_threshold)
                        table)))))"

text \<open>
  The cosine distance of two vectors of real numbers: one minus the inner product over
  the root of the product of the squared norms, and NaN where a squared norm is zero.
  The store computes it in floating point; on a vector of zeros and on equal vectors with
  one entry that is not zero, the two agree.
\<close>

definition dot :: "real list \<Rightarrow> real list \<Rightarrow> real" where
  "dot a b = sum_list (map2 (*) a b)"

definition cosine_distance :: "real list \<Rightarrow> real list \<Rightarrow> float8" where
  "cosine_distance a b =
     (if dot a a * dot b b = 0 then NaN
      else Finite (1 - dot a b / sqrt (dot a a * dot b b)))"

text \<open>\<^verbatim>\<open>.select('*').contains('tags', [tag])\<close>: the rows whose tags include the tag.\<close>

definition db_contains_tag :: "'n row list \<Rightarrow> string \<Rightarrow> 'n row list" where
  "db_contains_tag table tag =
     filter (\<lambda>r. case row_tags r of None \<Rightarrow> False | Some ts \<Rightarrow> tag \<in> set ts) table"

text \<open>\<^verbatim>\<open>.select('*').order('created_at', { ascending: false }).limit(limit)\<close>\<close>

definition db_select_recent :: "'n row list \<Rightarrow> nat \<Rightarrow> 'n row list" where
  "db_select_recent table n = take n (db_select_newest_first table)"

text \<open>\<^verbatim>\<open>.select('tags')\<close>: the column \<^verbatim>\<open>tags\<close> of every row.\<close>

definition db_select_tags :: "'n row list \<Rightarrow> string list option list" where
  "db_select_tags table = map row_tags table"

section \<open>SupabaseStorage\<close>

datatype SupabaseClient = SupabaseClient string string

record SupabaseStorage =
  client :: "SupabaseClient option"
  supabaseUrl :: string
  supabaseKey :: string

definition new_SupabaseStorage :: "string \<Rightarrow> string \<Rightarrow> SupabaseStorage" where
  "new_SupabaseStorage u k = \<lparr>client = None, supabaseUrl = u, supabaseKey = k\<rparr>"

definition initialize :: "SupabaseStorage \<Rightarrow> SupabaseStorage" where
  "initialize this = this\<lparr>client := Some (SupabaseClient (supabaseUrl this) (supabaseKey this))\<rparr>"

definition ensureClient :: "SupabaseStorage \<Rightarrow> error + SupabaseClient" where
  "ensureClient this =
     (case client this of
        None \<Rightarrow> Inl (Error ''Supabase client not initialized. Call initialize() first.'')
      | Some c \<Rightarrow> Inr c)"

text \<open>The object literal every operation builds from a row.\<close>

definition toNote :: "'n row \<Rightarrow> 'n Note" where
  "toNote d = \<lparr>note_id = row_id d, content = row_content d, embedding = row_embedding d,
               tags = row_tags d, source = row_source d,
               createdAt = created_at d, updatedAt = updated_at d\<rparr>"

text \<open>
  Every operation takes the object and the table and returns what it returns or throws,
  with the table after the call. What the operations write to the console is left out.
\<close>

definition saveNote ::
  "uuid \<Rightarrow> int \<Rightarrow> SupabaseStorage \<Rightarrow> 'n::zero row list \<Rightarrow> 'n NewNote
     \<Rightarrow> (error + 'n Note) \<times> 'n row list" where
  "saveNote new_id server_now this table note =
     (case ensureClient this of
        Inl e \<Rightarrow> (Inl e, table)
      | Inr c \<Rightarrow>
          (let normalizedEmbedding = normalizeEmbedding (new_embedding note)
           in case db_insert new_id server_now table (new_content note) normalizedEmbedding
                     (new_tags note) (new_source note) of
                (Inl err, table') \<Rightarrow>
                  (Inl (Error (''Failed to save note to Supabase: '' @ message err @ ''. '' @ hint err)),
                   table')
              | (Inr d, table') \<Rightarrow> (Inr (toNote d), table')))"

definition getNote_result :: "'n row response \<Rightarrow> error + 'n Note option" where
  "getNote_result resp =
     (case resp of
        Inl err \<Rightarrow> if code err = ''PGRST116'' then Inr None else Inl (Postgrest err)
      | Inr d \<Rightarrow> Inr (Some (toNote d)))"

definition getNote ::
  "SupabaseStorage \<Rightarrow> 'n row list \<Rightarrow> string \<Rightarrow> (error + 'n Note option) \<times> 'n row list" where
  "getNote this table i =
     (case ensureClient this of
        Inl e \<Rightarrow> (Inl e, table)
      | Inr c \<Rightarrow> (getNote_result (db_select_by_id table i), table))"

definition getAllNotes ::
  "SupabaseStorage \<Rightarrow> 'n row list \<Rightarrow> (error + 'n Note list) \<times> 'n row list" where
  "getAllNotes this table =
     (case ensureClient this of
        Inl e \<Rightarrow> (Inl e, table)
      | Inr c \<Rightarrow> (Inr (map toNote (db_select_newest_first table)), table))"

definition deleteNote ::
  "SupabaseStorage \<Rightarrow> 'n row list \<Rightarrow> string \<Rightarrow> (error + unit) \<times> 'n row list" where
  "deleteNote this table i =
     (case ensureClient this of
        Inl e \<Rightarrow> (Inl e, table)
      | Inr c \<Rightarrow>
          (case db_delete_eq table i of
             (Inl err, table') \<Rightarrow> (Inl (Postgrest err), table')
           | (Inr u, table') \<Rightarrow> (Inr (), table')))"

text \<open>
  \<^verbatim>\<open>updates.embedding ? this.normalizeEmbedding(updates.embedding) : undefined\<close>: an
  array is truthy, also an empty one. \<open>now\<close> is what \<^verbatim>\<open>new Date()\<close> reads from the
  clock of the caller.
\<close>

definition updateNote ::
  "int \<Rightarrow> SupabaseStorage \<Rightarrow> 'n::zero row list \<Rightarrow> string \<Rightarrow> 'n PartialNote
     \<Rightarrow> (error + 'n Note) \<times> 'n row list" where
  "updateNote now this table i updates =
     (case ensureClient this of
        Inl e \<Rightarrow> (Inl e, table)
      | Inr c \<Rightarrow>
          (let normalizedEmbedding =
                 (case upd_embedding updates of
                    Some e \<Rightarrow> Some (normalizeEmbedding e)
                  | None \<Rightarrow> None)
           in case db_update_by_id table i
                     \<lparr>set_content = upd_content updates, set_embedding = normalizedEmbedding,
                      set_tags = upd_tags updates, set_source = upd_source updates,
                      set_updated_at = now\<rparr> of
                (Inl err, table') \<Rightarrow> (Inl (Postgrest err), table')
              | (Inr d, table') \<Rightarrow> (Inr (toNote d), table')))"

definition searchNotes ::
  "(string \<Rightarrow> (string \<Rightarrow> bool) response) \<Rightarrow> SupabaseStorage \<Rightarrow> 'n row list \<Rightarrow> string
     \<Rightarrow> (error + 'n Note list) \<times> 'n row list" where
  "searchNotes fts this table query =
     (case ensureClient this of
        Inl e \<Rightarrow> (Inl e, table)
      | Inr c \<Rightarrow>
          (case db_text_search fts table query of
             Inl err \<Rightarrow> (Inl (Postgrest err), table)
           | Inr d \<Rightarrow> (Inr (map toNote d), table)))"

text \<open>
  \<^verbatim>\<open>searchByVector(embedding: number[], limit: number = 10)\<close>: the limit is a whole
  number, absent (\<open>None\<close>) when the caller passes none.
\<close>

definition searchByVector ::
  "('n list \<Rightarrow> 'n list \<Rightarrow> float8) \<Rightarrow> SupabaseStorage \<Rightarrow> 'n::zero row list \<Rightarrow> 'n list
     \<Rightarrow> int option \<Rightarrow> (error + 'n Note list) \<times> 'n row list" where
  "searchByVector distance this table e limit_opt =
     (let limit = (case limit_opt of None \<Rightarrow> 10 | Some l \<Rightarrow> l) in
      case ensureClient this of
        Inl err \<Rightarrow> (Inl err, table)
      | Inr c \<Rightarrow>
          (let normalizedEmbedding = normalizeEmbedding e
           in case match_notes distance table normalizedEmbedding (Finite (3 / 10)) limit of
                Inl err \<Rightarrow> (Inl (Postgrest err), table)
              | Inr d \<Rightarrow>
                  if length d = 0 then (Inr [], table)
                  else (Inr (map (\<lambda>d. toNote (fst d)) d), table)))"

definition searchByTag ::
  "SupabaseStorage \<Rightarrow> 'n row list \<Rightarrow> string \<Rightarrow> (error + 'n Note list) \<times> 'n row list" where
  "searchByTag this table tag =
     (case ensureClient this of
        Inl e \<Rightarrow> (Inl e, table)
      | Inr c \<Rightarrow> (Inr (map toNote (db_contains_tag table tag)), table))"

text \<open>\<^verbatim>\<open>getRecentNotes(limit: number = 10)\<close>: the limit is a count.\<close>

definition getRecentNotes ::
  "SupabaseStorage \<Rightarrow> 'n row list \<Rightarrow> nat option \<Rightarrow> (error + 'n Note list) \<times> 'n row list" where
  "getRecentNotes this table limit_opt =
     (let limit = (case limit_opt of None \<Rightarrow> 10 | Some l \<Rightarrow> l) in
      case ensureClient this of
        Inl e \<Rightarrow> (Inl e, table)
      | Inr c \<Rightarrow> (Inr (map toNote (db_select_recent table limit)), table))"

text \<open>
  \<^verbatim>\<open>Set.prototype.add\<close> on a set kept in insertion order, and the two nested
  \<^verbatim>\<open>forEach\<close> of \<^verbatim>\<open>getTags\<close>; \<^verbatim>\<open>note.tags?.forEach\<close> skips a row whose tags are null.
\<close>

definition set_add :: "'a list \<Rightarrow> 'a \<Rightarrow> 'a list" where
  "set_add s x = (if x \<in> set s then s else s @ [x])"

definition collect_tags :: "string list option list \<Rightarrow> string list" where
  "collect_tags d =
     fold (\<lambda>note tagsSet.
             case note of
               None \<Rightarrow> tagsSet
             | Some ts \<Rightarrow> fold (\<lambda>tag tagsSet. set_add tagsSet tag) ts tagsSet)
          d []"

text \<open>
  \<^verbatim>\<open>Array.from(tagsSet).sort()\<close>: the default order of \<^verbatim>\<open>sort\<close> compares strings
  code unit by code unit, a proper prefix first; on \<open>string\<close> that is the lexicographic
  order of the character codes. The set has no duplicates, so the sorted array does
  not depend on the sorting algorithm.
\<close>

definition getTags ::
  "SupabaseStorage \<Rightarrow> 'n row list \<Rightarrow> (error + string list) \<times> 'n row list" where
  "getTags this table =
     (case ensureClient this of
        Inl e \<Rightarrow> (Inl e, table)
      | Inr c \<Rightarrow> (Inr (sort (collect_tags (db_select_tags table))), table))"

definition clearAll ::
  "SupabaseStorage \<Rightarrow> 'n row list \<Rightarrow> (error + unit) \<times> 'n row list" where
  "clearAll this table =
     (case ensureClient this of
        Inl e \<Rightarrow> (Inl e, table)
      | Inr c \<Rightarrow>
          (case db_delete_neq table ''00000000-0000-0000-0000-000000000000'' of
             (Inl err, table') \<Rightarrow> (Inl (Postgrest err), table')
           | (Inr u, table') \<Rightarrow> (Inr (), table')))"

section \<open>Properties of the normalizer\<close>

lemma pad_loop_eq:
  "pad_loop v = v @ replicate (VECTOR_DIMENSIONS - length v) 0"
proof (induction v rule: pad_loop.induct)
  case (1 v)
  show ?case
  proof (cases "length v < VECTOR_DIMENSIONS")
    case True
    then have "VECTOR_DIMENSIONS - length v = Suc (VECTOR_DIMENSIONS - length (v @ [0]))"
      by simp
    with True 1 show ?thesis
      by (subst pad_loop.simps) (simp add: replicate_app_Cons_same)
  next
    case False
    then show ?thesis
      by (subst pad_loop.simps) simp
  qed
qed

lemma normalizeEmbedding_eq:
  "normalizeEmbedding v = take VECTOR_DIMENSIONS v @ replicate (VECTOR_DIMENSIONS - length v) 0"
  by (simp add: normalizeEmbedding_def slice_def pad_loop_eq)

lemma length_normalizeEmbedding:
  "length (normalizeEmbedding v) = VECTOR_DIMENSIONS"
  by (simp add: normalizeEmbedding_eq)

text \<open>
  C1. The normalizer by case: a vector of length 1536 is returned as it is; of a longer
  vector exactly the first 1536 components are returned; a shorter vector gives a vector
  of length 1536 that starts with the components of the input and is zero from there on.
\<close>

theorem normalizeEmbedding_by_case:
  "(length v = 1536 \<longrightarrow> normalizeEmbedding v = v) \<and>
   (length v > 1536 \<longrightarrow> normalizeEmbedding v = take 1536 v) \<and>
   (length v < 1536 \<longrightarrow>
      length (normalizeEmbedding v) = 1536 \<and>
      take (length v) (normalizeEmbedding v) = v \<and>
      drop (length v) (normalizeEmbedding v) = replicate (1536 - length v) 0 \<and>
      (\<forall>i. length v \<le> i \<and> i < 1536 \<longrightarrow> normalizeEmbedding v ! i = 0))"
  by (auto simp: normalizeEmbedding_eq VECTOR_DIMENSIONS_def nth_append)

theorem normalizeEmbedding_by_case_witness:
  "normalizeEmbedding (replicate 1536 (7::int)) = replicate 1536 7 \<and>
   normalizeEmbedding (replicate 2000 (7::int)) = replicate 1536 7 \<and>
   length (normalizeEmbedding [1, 2, 3::int]) = 1536 \<and>
   take (length [1, 2, 3::int]) (normalizeEmbedding [1, 2, 3::int]) = [1, 2, 3] \<and>
   drop (length [1, 2, 3::int]) (normalizeEmbedding [1, 2, 3::int]) = replicate 1533 0 \<and>
   normalizeEmbedding [1, 2, 3::int] ! 768 = 0"
  using normalizeEmbedding_by_case [of "replicate 1536 (7::int)"]
        normalizeEmbedding_by_case [of "replicate 2000 (7::int)"]
        normalizeEmbedding_by_case [of "[1, 2, 3::int]"]
  by simp

text \<open>
  C3. The normalizer is idempotent, and its result has length 1536 for every input.
\<close>

theorem normalizeEmbedding_idempotent:
  "normalizeEmbedding (normalizeEmbedding v) = normalizeEmbedding v \<and>
   length (normalizeEmbedding v) = 1536"
  by (simp add: normalizeEmbedding_eq VECTOR_DIMENSIONS_def min_def)

subsection \<open>The normalizer and the array it is given\<close>

lemma pad_loop_h_eq:
  "r < length h \<Longrightarrow> pad_loop_h h r = h[r := pad_loop (h ! r)]"
proof (induction h r rule: pad_loop_h.induct)
  case (1 h r)
  show ?case
  proof (cases "length (h ! r) < VECTOR_DIMENSIONS")
    case True
    have "pad_loop_h h r = pad_loop_h (push h r 0) r"
      using True 1(2) by (subst pad_loop_h.simps) simp
    also have "\<dots> = (push h r 0)[r := pad_loop (push h r 0 ! r)]"
      using True 1 by (simp add: push_def)
    also have "\<dots> = h[r := pad_loop (h ! r)]"
      using True 1(2) by (subst (2) pad_loop.simps) (simp add: push_def)
    finally show ?thesis .
  next
    case False
    then show ?thesis
      by (subst pad_loop_h.simps, subst pad_loop.simps) simp
  qed
qed

text \<open>
  The array at the reference the normalizer returns holds what the normalizer on values
  computes from the array it was given.
\<close>

lemma normalizeEmbedding_h_result:
  "r < length h \<Longrightarrow>
   snd (normalizeEmbedding_h h r) ! fst (normalizeEmbedding_h h r) = normalizeEmbedding (h ! r)"
  by (simp add: normalizeEmbedding_h_def normalizeEmbedding_def alloc_def pad_loop_h_eq nth_append)

text \<open>
  C10. The normalizer never mutates its argument: after the call the array at the
  reference it was given holds the same elements in the same order, in all three
  branches; indeed every array that existed before the call is as it was.
\<close>

theorem normalizeEmbedding_keeps_argument:
  "r < length h \<Longrightarrow>
   snd (normalizeEmbedding_h h r) ! r = h ! r \<and>
   take (length h) (snd (normalizeEmbedding_h h r)) = h"
  by (simp add: normalizeEmbedding_h_def alloc_def pad_loop_h_eq nth_append)

theorem normalizeEmbedding_keeps_argument_witness:
  "snd (normalizeEmbedding_h [replicate 1536 (7::int)] 0) ! 0 = replicate 1536 7 \<and>
   snd (normalizeEmbedding_h [replicate 2000 (7::int)] 0) ! 0 = replicate 2000 7 \<and>
   snd (normalizeEmbedding_h [[1, 2, 3::int]] 0) ! 0 = [1, 2, 3]"
  using normalizeEmbedding_keeps_argument [of 0 "[replicate 1536 (7::int)]"]
        normalizeEmbedding_keeps_argument [of 0 "[replicate 2000 (7::int)]"]
        normalizeEmbedding_keeps_argument [of 0 "[[1, 2, 3::int]]"]
  by simp

section \<open>Properties of the storage operations\<close>

text \<open>
  C4. On a backend whose \<^verbatim>\<open>initialize()\<close> has not run (the client is still null) each of
  the eleven operations throws the error with the message of \<^verbatim>\<open>ensureClient\<close> and
  leaves the table as it was. The error is distinct: once the client is there, no
  operation throws it, whatever the table and the arguments are.
\<close>

theorem uninitialized_fails_distinctly:
  "e = Error ''Supabase client not initialized. Call initialize() first.'' \<Longrightarrow>
   (client this = None \<longrightarrow>
      saveNote new_id server_now this table note = (Inl e, table) \<and>
      getNote this table i = (Inl e, table) \<and>
      getAllNotes this table = (Inl e, table) \<and>
      updateNote now this table i updates = (Inl e, table) \<and>
      deleteNote this table i = (Inl e, table) \<and>
      searchNotes fts this table query = (Inl e, table) \<and>
      searchByVector distance this table v limit_opt = (Inl e, table) \<and>
      searchByTag this table tag = (Inl e, table) \<and>
      getRecentNotes this table count_opt = (Inl e, table) \<and>
      getTags this table = (Inl e, table) \<and>
      clearAll this table = (Inl e, table)) \<and>
   (client this \<noteq> None \<longrightarrow>
      fst (saveNote new_id server_now this table note) \<noteq> Inl e \<and>
      fst (getNote this table i) \<noteq> Inl e \<and>
      fst (getAllNotes this table) \<noteq> Inl e \<and>
      fst (updateNote now this table i updates) \<noteq> Inl e \<and>
      fst (deleteNote this table i) \<noteq> Inl e \<and>
      fst (searchNotes fts this table query) \<noteq> Inl e \<and>
      fst (searchByVector distance this table v limit_opt) \<noteq> Inl e \<and>
      fst (searchByTag this table tag) \<noteq> Inl e \<and>
      fst (getRecentNotes this table count_opt) \<noteq> Inl e \<and>
      fst (getTags this table) \<noteq> Inl e \<and>
      fst (clearAll this table) \<noteq> Inl e)"
  by (intro conjI impI)
     (auto simp: ensureClient_def saveNote_def getNote_def getAllNotes_def updateNote_def
      deleteNote_def searchNotes_def searchByVector_def searchByTag_def getRecentNotes_def
      getTags_def clearAll_def getNote_result_def db_delete_eq_def db_delete_neq_def Let_def
      split: sum.splits prod.splits if_splits option.splits)

theorem uninitialized_fails_distinctly_witness:
  "(let e = Error ''Supabase client not initialized. Call initialize() first.'';
        this = new_SupabaseStorage ''https://project.supabase.co'' ''anon-key'';
        r = \<lparr>row_id = ''6f1c2f0e-8a57-4d3b-9c55-0d7a0a3f1b21'', row_content = ''acorns'',
             row_embedding = replicate 1536 (0::real), row_tags = Some [''nuts''],
             row_source = \<lparr>url = ''https://example.org'', title = ''Example'', timestamp = 1000\<rparr>,
             created_at = 1000, updated_at = 1000\<rparr>;
        n = \<lparr>new_content = ''walnuts'', new_embedding = [1, 2, 3], new_tags = [''nuts''],
             new_source = \<lparr>url = ''https://example.org'', title = ''Example'', timestamp = 2000\<rparr>\<rparr>;
        u = \<lparr>upd_id = None, upd_content = None, upd_embedding = None, upd_tags = Some [''tree''],
             upd_source = None, upd_createdAt = None, upd_updatedAt = None\<rparr>;
        i = ''6f1c2f0e-8a57-4d3b-9c55-0d7a0a3f1b21''
    in client this = None \<and>
       saveNote ''0b9d3c3a-51c4-4f0e-8d5e-3a1f6f3f9a10'' 2000 this [r] n = (Inl e, [r]) \<and>
       getNote this [r] i = (Inl e, [r]) \<and>
       getAllNotes this [r] = (Inl e, [r]) \<and>
       updateNote 3000 this [r] i u = (Inl e, [r]) \<and>
       deleteNote this [r] i = (Inl e, [r]) \<and>
       searchNotes (\<lambda>q. Inr (\<lambda>c. True)) this [r] ''acorns'' = (Inl e, [r]) \<and>
       searchByVector cosine_distance this [r] [1, 2, 3] None = (Inl e, [r]) \<and>
       searchByTag this [r] ''nuts'' = (Inl e, [r]) \<and>
       getRecentNotes this [r] None = (Inl e, [r]) \<and>
       getTags this [r] = (Inl e, [r]) \<and>
       clearAll this [r] = (Inl e, [r]) \<and>
       client (initialize this) \<noteq> None \<and>
       fst (getNote (initialize this) [r] i) \<noteq> Inl e \<and>
       fst (deleteNote (initialize this) [r] i) \<noteq> Inl e \<and>
       fst (clearAll (initialize this) [r]) \<noteq> Inl e)"
  by (simp add: Let_def initialize_def new_SupabaseStorage_def
      uninitialized_fails_distinctly [OF refl, THEN conjunct1, rule_format]
      uninitialized_fails_distinctly [OF refl, THEN conjunct2, rule_format])

subsection \<open>Point lookup and deletion of an id that is not stored\<close>

lemma getNote_absent:
  assumes "client this \<noteq> None" and "uuid_in i = Some u" and "u \<notin> row_id ` set table"
  shows "getNote this table i = (Inr None, table)"
proof -
  from assms(3) have "filter (\<lambda>r. row_id r = u) table = []"
    by (auto simp: filter_empty_conv)
  then have "db_select_by_id table i =
      Inl (pg_error ''PGRST116'' ''JSON object requested, multiple (or no) rows returned'')"
    using assms(2) by (simp add: db_select_by_id_def single_def)
  with assms(1) show ?thesis
    by (auto simp: getNote_def getNote_result_def ensureClient_def pg_error_def)
qed

lemma code_invalid_uuid: "code (invalid_uuid i) = ''22P02''"
  by (simp add: invalid_uuid_def pg_error_def)

lemma getNote_not_uuid:
  assumes "client this \<noteq> None" and "uuid_in i = None"
  shows "getNote this table i = (Inl (Postgrest (invalid_uuid i)), table)"
  using assms
  by (auto simp: getNote_def getNote_result_def ensureClient_def db_select_by_id_def
      code_invalid_uuid)

text \<open>
  C6, as amended. For an id that is the text of a uuid which no row has, \<^verbatim>\<open>getNote\<close>
  returns null and throws nothing; a response whose error has the code \<^verbatim>\<open>PGRST116\<close> (no
  row found) is mapped to null; and for an id that is not the text of a uuid the store
  answers with the error \<^verbatim>\<open>22P02\<close>, which \<^verbatim>\<open>getNote\<close> throws.
\<close>

theorem getNote_absent_uuid_is_null:
  "(client this \<noteq> None \<and> uuid_in i = Some u \<and> u \<notin> row_id ` set table \<longrightarrow>
      getNote this table i = (Inr None, table)) \<and>
   (code err = ''PGRST116'' \<longrightarrow> getNote_result (Inl err) = Inr None) \<and>
   (client this \<noteq> None \<and> uuid_in i = None \<longrightarrow>
      getNote this table i = (Inl (Postgrest (invalid_uuid i)), table))"
  by (simp add: getNote_absent getNote_not_uuid getNote_result_def)

theorem getNote_absent_uuid_is_null_witness:
  "(let this = initialize (new_SupabaseStorage ''https://project.supabase.co'' ''anon-key'');
        r = \<lparr>row_id = ''6f1c2f0e-8a57-4d3b-9c55-0d7a0a3f1b21'', row_content = ''acorns'',
             row_embedding = replicate 1536 (0::real), row_tags = Some [''nuts''],
             row_source = \<lparr>url = ''https://example.org'', title = ''Example'', timestamp = 1000\<rparr>,
             created_at = 1000, updated_at = 1000\<rparr>;
        err = \<lparr>message = ''no rows'', details = '''', hint = '''', code = ''PGRST116''\<rparr>
    in client this \<noteq> None \<and>
       uuid_in ''0B9D3C3A-51C4-4F0E-8D5E-3A1F6F3F9A10'' = Some ''0b9d3c3a-51c4-4f0e-8d5e-3a1f6f3f9a10'' \<and>
       ''0b9d3c3a-51c4-4f0e-8d5e-3a1f6f3f9a10'' \<notin> row_id ` set [r] \<and>
       getNote this [r] ''0B9D3C3A-51C4-4F0E-8D5E-3A1F6F3F9A10'' = (Inr None, [r]) \<and>
       code err = ''PGRST116'' \<and> getNote_result (Inl err) = Inr None \<and>
       uuid_in ''abc'' = None \<and>
       getNote this [r] ''abc'' = (Inl (Postgrest (invalid_uuid ''abc'')), [r]))"
proof -
  have u: "uuid_in ''0B9D3C3A-51C4-4F0E-8D5E-3A1F6F3F9A10'' = Some ''0b9d3c3a-51c4-4f0e-8d5e-3a1f6f3f9a10''"
    by code_simp
  have a: "uuid_in ''abc'' = None"
    by code_simp
  show ?thesis
    by (simp add: Let_def initialize_def new_SupabaseStorage_def u a
      getNote_absent_uuid_is_null [THEN conjunct1, rule_format, OF conjI, OF _ conjI, OF _ u]
      getNote_absent_uuid_is_null [THEN conjunct2, THEN conjunct1, rule_format]
      getNote_absent_uuid_is_null [THEN conjunct2, THEN conjunct2, rule_format])
qed

text \<open>
  C6, as stated, fails: the id \<^verbatim>\<open>abc\<close> is the id of no stored note, and \<^verbatim>\<open>getNote\<close> throws
  the error of the store instead of returning null.
\<close>

theorem getNote_not_uuid_counterexample:
  "''abc'' \<notin> row_id ` set [\<lparr>row_id = ''6f1c2f0e-8a57-4d3b-9c55-0d7a0a3f1b21'', row_content = ''acorns'',
             row_embedding = replicate 1536 (0::real), row_tags = Some [''nuts''],
             row_source = \<lparr>url = ''https://example.org'', title = ''Example'', timestamp = 1000\<rparr>,
             created_at = 1000, updated_at = 1000\<rparr>] \<and>
   getNote (initialize (new_SupabaseStorage ''https://project.supabase.co'' ''anon-key''))
     [\<lparr>row_id = ''6f1c2f0e-8a57-4d3b-9c55-0d7a0a3f1b21'', row_content = ''acorns'',
             row_embedding = replicate 1536 (0::real), row_tags = Some [''nuts''],
             row_source = \<lparr>url = ''https://example.org'', title = ''Example'', timestamp = 1000\<rparr>,
             created_at = 1000, updated_at = 1000\<rparr>]
     ''abc''
   = (Inl (Postgrest \<lparr>message = ''invalid input syntax for type uuid: '' @ [CHR 0x22] @ ''abc'' @ [CHR 0x22],
                      details = '''', hint = '''', code = ''22P02''\<rparr>),
      [\<lparr>row_id = ''6f1c2f0e-8a57-4d3b-9c55-0d7a0a3f1b21'', row_content = ''acorns'',
             row_embedding = replicate 1536 (0::real), row_tags = Some [''nuts''],
             row_source = \<lparr>url = ''https://example.org'', title = ''Example'', timestamp = 1000\<rparr>,
             created_at = 1000, updated_at = 1000\<rparr>])"
proof -
  have a: "uuid_in ''abc'' = None"
    by code_simp
  show ?thesis
    by (simp add: getNote_def getNote_result_def ensureClient_def initialize_def
        new_SupabaseStorage_def db_select_by_id_def invalid_uuid_def pg_error_def a)
qed

text \<open>
  C7, as amended. For an id that no stored note has, \<^verbatim>\<open>deleteNote\<close> fails with the error
  \<^verbatim>\<open>22P02\<close> of the store when the id is not the text of a uuid, and completes without an
  error when it is: the request is a DELETE with a filter, and a filter that matches no row
  is no error of the store. In both cases the table stays as it was.
\<close>

theorem deleteNote_absent_by_form:
  "(client this \<noteq> None \<and> uuid_in i = Some u \<and> u \<notin> row_id ` set table \<longrightarrow>
      deleteNote this table i = (Inr (), table)) \<and>
   (client this \<noteq> None \<and> uuid_in i = None \<longrightarrow>
      deleteNote this table i = (Inl (Postgrest (invalid_uuid i)), table))"
proof (intro conjI impI)
  assume a: "client this \<noteq> None \<and> uuid_in i = Some u \<and> u \<notin> row_id ` set table"
  then have "filter (\<lambda>r. row_id r \<noteq> u) table = table"
    by (auto simp: filter_id_conv)
  with a show "deleteNote this table i = (Inr (), table)"
    by (auto simp: deleteNote_def db_delete_eq_def ensureClient_def)
next
  assume "client this \<noteq> None \<and> uuid_in i = None"
  then show "deleteNote this table i = (Inl (Postgrest (invalid_uuid i)), table)"
    by (auto simp: deleteNote_def db_delete_eq_def ensureClient_def)
qed

theorem deleteNote_absent_by_form_witness:
  "(let this = initialize (new_SupabaseStorage ''https://project.supabase.co'' ''anon-key'');
        r = \<lparr>row_id = ''6f1c2f0e-8a57-4d3b-9c55-0d7a0a3f1b21'', row_content = ''acorns'',
             row_embedding = replicate 1536 (0::real), row_tags = Some [''nuts''],
             row_source = \<lparr>url = ''https://example.org'', title = ''Example'', timestamp = 1000\<rparr>,
             created_at = 1000, updated_at = 1000\<rparr>
    in client this \<noteq> None \<and>
       uuid_in ''0b9d3c3a-51c4-4f0e-8d5e-3a1f6f3f9a10'' = Some ''0b9d3c3a-51c4-4f0e-8d5e-3a1f6f3f9a10'' \<and>
       ''0b9d3c3a-51c4-4f0e-8d5e-3a1f6f3f9a10'' \<notin> row_id ` set [r] \<and>
       deleteNote this [r] ''0b9d3c3a-51c4-4f0e-8d5e-3a1f6f3f9a10'' = (Inr (), [r]) \<and>
       uuid_in ''abc'' = None \<and>
       deleteNote this [r] ''abc'' = (Inl (Postgrest (invalid_uuid ''abc'')), [r]))"
proof -
  have u: "uuid_in ''0b9d3c3a-51c4-4f0e-8d5e-3a1f6f3f9a10'' = Some ''0b9d3c3a-51c4-4f0e-8d5e-3a1f6f3f9a10''"
    by code_simp
  have a: "uuid_in ''abc'' = None"
    by code_simp
  show ?thesis
    by (simp add: Let_def initialize_def new_SupabaseStorage_def u a
      deleteNote_absent_by_form [THEN conjunct1, rule_format, OF conjI, OF _ conjI, OF _ u]
      deleteNote_absent_by_form [THEN conjunct2, rule_format])
qed

text \<open>
  C7, as stated, fails: on a table with one note, deleting a uuid that is not stored
  returns normally, with the table unchanged.
\<close>

theorem deleteNote_absent_counterexample:
  "''0b9d3c3a-51c4-4f0e-8d5e-3a1f6f3f9a10'' \<notin>
     row_id ` set [\<lparr>row_id = ''6f1c2f0e-8a57-4d3b-9c55-0d7a0a3f1b21'', row_content = ''acorns'',
             row_embedding = replicate 1536 (0::real), row_tags = Some [''nuts''],
             row_source = \<lparr>url = ''https://example.org'', title = ''Example'', timestamp = 1000\<rparr>,
             created_at = 1000, updated_at = 1000\<rparr>] \<and>
   deleteNote (initialize (new_SupabaseStorage ''https://project.supabase.co'' ''anon-key''))
     [\<lparr>row_id = ''6f1c2f0e-8a57-4d3b-9c55-0d7a0a3f1b21'', row_content = ''acorns'',
             row_embedding = replicate 1536 (0::real), row_tags = Some [''nuts''],
             row_source = \<lparr>url = ''https://example.org'', title = ''Example'', timestamp = 1000\<rparr>,
             created_at = 1000, updated_at = 1000\<rparr>]
     ''0b9d3c3a-51c4-4f0e-8d5e-3a1f6f3f9a10''
   = (Inr (),
      [\<lparr>row_id = ''6f1c2f0e-8a57-4d3b-9c55-0d7a0a3f1b21'', row_content = ''acorns'',
             row_embedding = replicate 1536 (0::real), row_tags = Some [''nuts''],
             row_source = \<lparr>url = ''https://example.org'', title = ''Example'', timestamp = 1000\<rparr>,
             created_at = 1000, updated_at = 1000\<rparr>])"
proof -
  have u: "uuid_in ''0b9d3c3a-51c4-4f0e-8d5e-3a1f6f3f9a10'' = Some ''0b9d3c3a-51c4-4f0e-8d5e-3a1f6f3f9a10''"
    by code_simp
  show ?thesis
    by (simp add: deleteNote_def ensureClient_def initialize_def new_SupabaseStorage_def
        db_delete_eq_def u)
qed

subsection \<open>Clearing the table\<close>

text \<open>
  \<^verbatim>\<open>clearAll\<close> removes the rows whose id is not the nil uuid. The store draws every id
  with \<^verbatim>\<open>uuid_generate_v4()\<close>, which never gives the nil uuid, and no operation of the
  class writes an id: \<^verbatim>\<open>saveNote\<close> adds at most a row with the id drawn, and
  \<^verbatim>\<open>updateNote\<close> and \<^verbatim>\<open>deleteNote\<close> add none.
\<close>

lemma filter_absent_id:
  "u \<notin> row_id ` set table \<Longrightarrow> filter (\<lambda>r. row_id r = u) table = []"
  by (auto simp: filter_empty_conv)

lemma uuid_in_nil:
  "uuid_in ''00000000-0000-0000-0000-000000000000'' = Some ''00000000-0000-0000-0000-000000000000''"
  by code_simp

lemma clearAll_eq:
  "client this \<noteq> None \<Longrightarrow>
   clearAll this table =
     (Inr (), filter (\<lambda>r. row_id r = ''00000000-0000-0000-0000-000000000000'') table)"
  by (auto simp: clearAll_def db_delete_neq_def ensureClient_def uuid_in_nil)

lemma saveNote_ids:
  "row_id ` set (snd (saveNote new_id server_now this table note)) \<subseteq> insert new_id (row_id ` set table)"
  by (auto simp: saveNote_def db_insert_def Let_def split: sum.splits if_splits)

lemma updateNote_ids:
  "row_id ` set (snd (updateNote now this table i updates)) = row_id ` set table"
proof -
  have "\<And>u p. row_id ` set (map (\<lambda>r. if row_id r = u then apply_patch p r else r) table)
          = row_id ` set table"
    by (induction table) (auto simp: apply_patch_def)
  then show ?thesis
    by (auto simp: updateNote_def db_update_by_id_def Let_def
        split: sum.splits if_splits option.splits simp del: set_map)
qed

lemma deleteNote_ids:
  "row_id ` set (snd (deleteNote this table i)) \<subseteq> row_id ` set table"
  by (auto simp: deleteNote_def db_delete_eq_def split: sum.splits option.splits)

lemma nil_uuid_stays_out:
  assumes "''00000000-0000-0000-0000-000000000000'' \<notin> row_id ` set table"
    and "new_id \<noteq> ''00000000-0000-0000-0000-000000000000''"
  shows "''00000000-0000-0000-0000-000000000000'' \<notin>
           row_id ` set (snd (saveNote new_id server_now this table note))"
    and "''00000000-0000-0000-0000-000000000000'' \<notin>
           row_id ` set (snd (updateNote now this table i updates))"
    and "''00000000-0000-0000-0000-000000000000'' \<notin>
           row_id ` set (snd (deleteNote this table i))"
  using assms saveNote_ids [of new_id server_now this table "note"]
    updateNote_ids [of now this table i updates] deleteNote_ids [of this table i]
  by blast+

text \<open>
  C9. On a table of notes with ids the store drew (none is the nil uuid), \<^verbatim>\<open>clearAll\<close>
  completes without an error and leaves the table empty; on the empty table no operation
  returns a note: \<^verbatim>\<open>getNote\<close> returns none for any id, and every listing and search that
  returns gives the empty list.
\<close>

theorem clearAll_empties:
  "client this \<noteq> None \<Longrightarrow>
   ''00000000-0000-0000-0000-000000000000'' \<notin> row_id ` set table \<Longrightarrow>
   clearAll this table = (Inr (), []) \<and>
   (\<forall>n. fst (getNote this ([] :: 'n::zero row list) i) \<noteq> Inr (Some n)) \<and>
   fst (getAllNotes this ([] :: 'n row list)) = Inr [] \<and>
   (\<forall>ns. fst (searchNotes fts this ([] :: 'n row list) query) = Inr ns \<longrightarrow> ns = []) \<and>
   (\<forall>ns. fst (searchByVector distance this ([] :: 'n row list) v limit_opt) = Inr ns \<longrightarrow> ns = []) \<and>
   fst (searchByTag this ([] :: 'n row list) tag) = Inr [] \<and>
   fst (getRecentNotes this ([] :: 'n row list) count_opt) = Inr [] \<and>
   fst (getTags this ([] :: 'n row list)) = Inr []"
proof -
  assume c: "client this \<noteq> None"
    and n: "''00000000-0000-0000-0000-000000000000'' \<notin> row_id ` set table"
  from n have "filter (\<lambda>r. row_id r = ''00000000-0000-0000-0000-000000000000'') table = []"
    by (rule filter_absent_id)
  with c have 1: "clearAll this table = (Inr (), [])"
    by (simp add: clearAll_eq)
  from c obtain cl where e: "ensureClient this = Inr cl"
    by (auto simp: ensureClient_def)
  have 2: "\<forall>n. fst (getNote this ([] :: 'n row list) i) \<noteq> Inr (Some n)"
    using e by (auto simp: getNote_def getNote_result_def db_select_by_id_def single_def
        split: option.splits)
  have 3: "fst (getAllNotes this ([] :: 'n row list)) = Inr []"
    using e by (simp add: getAllNotes_def db_select_newest_first_def)
  have 4: "\<forall>ns. fst (searchNotes fts this ([] :: 'n row list) query) = Inr ns \<longrightarrow> ns = []"
    using e by (auto simp: searchNotes_def db_text_search_def split: sum.splits)
  have 5: "\<forall>ns. fst (searchByVector distance this ([] :: 'n row list) v limit_opt) = Inr ns \<longrightarrow> ns = []"
    using e by (auto simp: searchByVector_def match_notes_def Let_def split: sum.splits if_splits)
  have 6: "fst (searchByTag this ([] :: 'n row list) tag) = Inr []"
    using e by (simp add: searchByTag_def db_contains_tag_def)
  have 7: "fst (getRecentNotes this ([] :: 'n row list) count_opt) = Inr []"
    using e by (simp add: getRecentNotes_def db_select_recent_def db_select_newest_first_def)
  have 8: "fst (getTags this ([] :: 'n row list)) = Inr []"
    using e by (simp add: getTags_def db_select_tags_def collect_tags_def)
  from 1 2 3 4 5 6 7 8 show ?thesis
    by blast
qed

theorem clearAll_empties_witness:
  "(let this = initialize (new_SupabaseStorage ''https://project.supabase.co'' ''anon-key'');
        src = \<lparr>url = ''https://example.org'', title = ''Example'', timestamp = 1000\<rparr>;
        r1 = \<lparr>row_id = ''6f1c2f0e-8a57-4d3b-9c55-0d7a0a3f1b21'', row_content = ''acorns'',
              row_embedding = replicate 1536 (0::real), row_tags = Some [''nuts''],
              row_source = src, created_at = 1000, updated_at = 1000\<rparr>;
        r2 = \<lparr>row_id = ''0b9d3c3a-51c4-4f0e-8d5e-3a1f6f3f9a10'', row_content = ''oak'',
              row_embedding = replicate 1536 (0::real), row_tags = None,
              row_source = src, created_at = 2000, updated_at = 2000\<rparr>
    in client this \<noteq> None \<and>
       ''00000000-0000-0000-0000-000000000000'' \<notin> row_id ` set [r1, r2] \<and>
       clearAll this [r1, r2] = (Inr (), []) \<and>
       fst (getNote this ([] :: real row list) ''6f1c2f0e-8a57-4d3b-9c55-0d7a0a3f1b21'')
         \<noteq> Inr (Some (toNote r1)) \<and>
       fst (getAllNotes this ([] :: real row list)) = Inr [] \<and>
       fst (searchByTag this ([] :: real row list) ''nuts'') = Inr [] \<and>
       fst (getRecentNotes this ([] :: real row list) None) = Inr [] \<and>
       fst (getTags this ([] :: real row list)) = Inr [])"
proof -
  define this where "this = initialize (new_SupabaseStorage ''https://project.supabase.co'' ''anon-key'')"
  define src where "src = \<lparr>url = ''https://example.org'', title = ''Example'', timestamp = 1000\<rparr>"
  define r1 where "r1 = \<lparr>row_id = ''6f1c2f0e-8a57-4d3b-9c55-0d7a0a3f1b21'', row_content = ''acorns'',
              row_embedding = replicate 1536 (0::real), row_tags = Some [''nuts''],
              row_source = src, created_at = 1000, updated_at = 1000\<rparr>"
  define r2 where "r2 = \<lparr>row_id = ''0b9d3c3a-51c4-4f0e-8d5e-3a1f6f3f9a10'', row_content = ''oak'',
              row_embedding = replicate 1536 (0::real), row_tags = None,
              row_source = src, created_at = 2000, updated_at = 2000\<rparr>"
  have c: "client this \<noteq> None"
    by (simp add: this_def initialize_def new_SupabaseStorage_def)
  have n: "''00000000-0000-0000-0000-000000000000'' \<notin> row_id ` set [r1, r2]"
    by (simp add: r1_def r2_def)
  note t = clearAll_empties [OF c n, where ?'n = real]
  from c n t [of "''6f1c2f0e-8a57-4d3b-9c55-0d7a0a3f1b21''"] show ?thesis
    unfolding this_def src_def r1_def r2_def Let_def by blast
qed

subsection \<open>The tags of all notes\<close>

lemma set_add_set: "set (set_add s x) = insert x (set s)"
  by (auto simp: set_add_def)

lemma set_add_distinct: "distinct s \<Longrightarrow> distinct (set_add s x)"
  by (simp add: set_add_def)

lemma fold_set_add_set:
  "set (fold (\<lambda>tag tagsSet. set_add tagsSet tag) ts s) = set s \<union> set ts"
  by (induction ts arbitrary: s) (auto simp: set_add_set)

lemma fold_set_add_distinct:
  "distinct s \<Longrightarrow> distinct (fold (\<lambda>tag tagsSet. set_add tagsSet tag) ts s)"
  by (induction ts arbitrary: s) (auto simp: set_add_distinct)

lemma tags_loop_set:
  "set (fold (\<lambda>note tagsSet.
             case note of
               None \<Rightarrow> tagsSet
             | Some ts \<Rightarrow> fold (\<lambda>tag tagsSet. set_add tagsSet tag) ts tagsSet) d s)
   = set s \<union> (\<Union>note\<in>set d. case note of None \<Rightarrow> {} | Some ts \<Rightarrow> set ts)"
  by (induction d arbitrary: s) (auto simp: fold_set_add_set split: option.splits)

lemma tags_loop_distinct:
  "distinct s \<Longrightarrow>
   distinct (fold (\<lambda>note tagsSet.
             case note of
               None \<Rightarrow> tagsSet
             | Some ts \<Rightarrow> fold (\<lambda>tag tagsSet. set_add tagsSet tag) ts tagsSet) d s)"
  by (induction d arbitrary: s) (auto simp: fold_set_add_distinct split: option.splits)

lemma collect_tags_set:
  "set (collect_tags d) = (\<Union>note\<in>set d. case note of None \<Rightarrow> {} | Some ts \<Rightarrow> set ts)"
  by (simp add: collect_tags_def tags_loop_set)

lemma collect_tags_distinct: "distinct (collect_tags d)"
  by (simp add: collect_tags_def tags_loop_distinct)

text \<open>
  C8. \<^verbatim>\<open>getTags\<close> returns every tag of every stored note exactly once (tags are compared
  as they are written, so case matters), sorted in the order of strings, which compares
  character codes; notes may share tags, and a note without tags adds none.
\<close>

theorem getTags_distinct_sorted:
  "client this \<noteq> None \<Longrightarrow>
   \<exists>ts. getTags this table = (Inr ts, table) \<and>
        sorted ts \<and> distinct ts \<and>
        set ts = (\<Union>r\<in>set table. case row_tags r of None \<Rightarrow> {} | Some t \<Rightarrow> set t)"
  by (auto simp: getTags_def ensureClient_def collect_tags_set collect_tags_distinct
      db_select_tags_def)


theorem getTags_distinct_sorted_witness:
  "(let this = initialize (new_SupabaseStorage ''https://project.supabase.co'' ''anon-key'');
        src = \<lparr>url = ''https://example.org'', title = ''Example'', timestamp = 1000\<rparr>;
        r1 = \<lparr>row_id = ''6f1c2f0e-8a57-4d3b-9c55-0d7a0a3f1b21'', row_content = ''acorns'',
              row_embedding = replicate 1536 (0::real), row_tags = Some [''nuts'', ''Tree''],
              row_source = src, created_at = 1000, updated_at = 1000\<rparr>;
        r2 = \<lparr>row_id = ''0b9d3c3a-51c4-4f0e-8d5e-3a1f6f3f9a10'', row_content = ''oak'',
              row_embedding = replicate 1536 (0::real), row_tags = None,
              row_source = src, created_at = 2000, updated_at = 2000\<rparr>;
        r3 = \<lparr>row_id = ''c2a4b8de-1f7e-4c55-a1d0-94f5f0a6e3b7'', row_content = ''walnuts'',
              row_embedding = replicate 1536 (0::real), row_tags = Some [''tree'', ''nuts'', ''nut''],
              row_source = src, created_at = 3000, updated_at = 3000\<rparr>
    in client this \<noteq> None \<and>
       getTags this [r1, r2, r3] = (Inr [''Tree'', ''nut'', ''nuts'', ''tree''], [r1, r2, r3]) \<and>
       sorted [''Tree'', ''nut'', ''nuts'', ''tree''] \<and>
       distinct [''Tree'', ''nut'', ''nuts'', ''tree''])"
proof -
  define this where "this = initialize (new_SupabaseStorage ''https://project.supabase.co'' ''anon-key'')"
  define src where "src = \<lparr>url = ''https://example.org'', title = ''Example'', timestamp = 1000\<rparr>"
  define r1 where "r1 = \<lparr>row_id = ''6f1c2f0e-8a57-4d3b-9c55-0d7a0a3f1b21'', row_content = ''acorns'',
              row_embedding = replicate 1536 (0::real), row_tags = Some [''nuts'', ''Tree''],
              row_source = src, created_at = 1000, updated_at = 1000\<rparr>"
  define r2 where "r2 = \<lparr>row_id = ''0b9d3c3a-51c4-4f0e-8d5e-3a1f6f3f9a10'', row_content = ''oak'',
              row_embedding = replicate 1536 (0::real), row_tags = None,
              row_source = src, created_at = 2000, updated_at = 2000\<rparr>"
  define r3 where "r3 = \<lparr>row_id = ''c2a4b8de-1f7e-4c55-a1d0-94f5f0a6e3b7'', row_content = ''walnuts'',
              row_embedding = replicate 1536 (0::real), row_tags = Some [''tree'', ''nuts'', ''nut''],
              row_source = src, created_at = 3000, updated_at = 3000\<rparr>"
  have c: "client this \<noteq> None"
    by (simp add: this_def initialize_def new_SupabaseStorage_def)
  have s: "sort [''nuts'', ''Tree'', ''tree'', ''nut''] = [''Tree'', ''nut'', ''nuts'', ''tree'']"
    by code_simp
  have ev: "getTags this [r1, r2, r3] = (Inr [''Tree'', ''nut'', ''nuts'', ''tree''], [r1, r2, r3])"
    using c
    by (auto simp: getTags_def ensureClient_def db_select_tags_def collect_tags_def set_add_def
        r1_def r2_def r3_def s)
  from getTags_distinct_sorted [OF c, of "[r1, r2, r3]"]
  obtain ts where "getTags this [r1, r2, r3] = (Inr ts, [r1, r2, r3])" and "sorted ts" and "distinct ts"
    by blast
  with ev have "sorted [''Tree'', ''nut'', ''nuts'', ''tree'']" and "distinct [''Tree'', ''nut'', ''nuts'', ''tree'']"
    by simp_all
  with c ev show ?thesis
    unfolding this_def src_def r1_def r2_def r3_def Let_def by blast
qed

subsection \<open>Updating a note\<close>

lemma single_Inr: "single rows = Inr r \<longleftrightarrow> rows = [r]"
  by (auto simp: single_def split: list.splits)

lemma getNote_Some:
  "client this \<noteq> None \<Longrightarrow> getNote this table i = (Inr (Some old), table') \<Longrightarrow>
   \<exists>u r. uuid_in i = Some u \<and> filter (\<lambda>r. row_id r = u) table = [r] \<and> old = toNote r"
  by (auto simp: getNote_def getNote_result_def ensureClient_def db_select_by_id_def single_Inr
      code_invalid_uuid split: sum.splits if_splits option.splits)

lemma getNote_unique:
  "client this \<noteq> None \<Longrightarrow> uuid_in i = Some u \<Longrightarrow> filter (\<lambda>r. row_id r = u) table = [r] \<Longrightarrow>
   getNote this table i = (Inr (Some (toNote r)), table)"
  by (auto simp: getNote_def getNote_result_def ensureClient_def db_select_by_id_def single_def)

text \<open>
  The store compares uuids, not texts: the upper-case spelling of the id of a stored note
  finds the note.
\<close>

lemma getNote_upper_case:
  "getNote (initialize (new_SupabaseStorage ''https://project.supabase.co'' ''anon-key''))
     [\<lparr>row_id = ''6f1c2f0e-8a57-4d3b-9c55-0d7a0a3f1b21'', row_content = ''acorns'',
       row_embedding = replicate 1536 (0::real), row_tags = Some [''nuts''],
       row_source = \<lparr>url = ''https://example.org'', title = ''Example'', timestamp = 1000\<rparr>,
       created_at = 1000, updated_at = 1000\<rparr>]
     ''6F1C2F0E-8A57-4D3B-9C55-0D7A0A3F1B21''
   = (Inr (Some \<lparr>note_id = ''6f1c2f0e-8a57-4d3b-9c55-0d7a0a3f1b21'', content = ''acorns'',
            embedding = replicate 1536 0, tags = Some [''nuts''],
            source = \<lparr>url = ''https://example.org'', title = ''Example'', timestamp = 1000\<rparr>,
            createdAt = 1000, updatedAt = 1000\<rparr>),
      [\<lparr>row_id = ''6f1c2f0e-8a57-4d3b-9c55-0d7a0a3f1b21'', row_content = ''acorns'',
        row_embedding = replicate 1536 (0::real), row_tags = Some [''nuts''],
        row_source = \<lparr>url = ''https://example.org'', title = ''Example'', timestamp = 1000\<rparr>,
        created_at = 1000, updated_at = 1000\<rparr>])"
proof -
  have k: "uuid_in ''6F1C2F0E-8A57-4D3B-9C55-0D7A0A3F1B21'' = Some ''6f1c2f0e-8a57-4d3b-9c55-0d7a0a3f1b21''"
    by code_simp
  show ?thesis
    by (simp add: getNote_def getNote_result_def db_select_by_id_def ensureClient_def
        initialize_def new_SupabaseStorage_def single_def toNote_def k)
qed

lemma row_id_apply_patch [simp]: "row_id (apply_patch p r) = row_id r"
  by (simp add: apply_patch_def)

lemma filter_after_patch:
  "filter (\<lambda>r. row_id r = u) table = [r] \<Longrightarrow>
   filter (\<lambda>r. row_id r = u) (map (\<lambda>r. if row_id r = u then apply_patch p r else r) table)
     = [apply_patch p r]"
proof -
  assume a: "filter (\<lambda>r. row_id r = u) table = [r]"
  have "filter (\<lambda>r. row_id r = u) (map (\<lambda>r. if row_id r = u then apply_patch p r else r) table)
        = map (\<lambda>r. if row_id r = u then apply_patch p r else r) (filter (\<lambda>r. row_id r = u) table)"
    by (induction table) auto
  also have "\<dots> = [apply_patch p r]"
    using a Cons_eq_filterD [OF a [symmetric]] by auto
  finally show ?thesis .
qed

lemma updateNote_unique:
  assumes "client this \<noteq> None" and "uuid_in i = Some u"
    and "filter (\<lambda>r. row_id r = u) table = [r]"
  shows "updateNote now this table i upd =
           (Inr (toNote (apply_patch
                  \<lparr>set_content = upd_content upd,
                   set_embedding = map_option normalizeEmbedding (upd_embedding upd),
                   set_tags = upd_tags upd, set_source = upd_source upd, set_updated_at = now\<rparr> r)),
            map (\<lambda>r. if row_id r = u
                      then apply_patch
                        \<lparr>set_content = upd_content upd,
                         set_embedding = map_option normalizeEmbedding (upd_embedding upd),
                         set_tags = upd_tags upd, set_source = upd_source upd, set_updated_at = now\<rparr> r
                      else r) table)"
  using assms
  by (cases "upd_embedding upd")
     (auto simp: updateNote_def ensureClient_def db_update_by_id_def single_def Let_def
      length_normalizeEmbedding VECTOR_DIMENSIONS_def)

text \<open>
  C5, as amended. An update of a stored note that supplies tags and no content, embedding
  or source returns and stores the note with its content, embedding, source and createdAt
  as they were, the new tags, and updatedAt set to the clock reading of the caller; so
  updatedAt grows strictly exactly when that reading is later than the stored value. An
  update that supplies an embedding stores and returns its normalization, of length 1536.
\<close>

theorem updateNote_tags_only:
  "(client this \<noteq> None \<and> getNote this table i = (Inr (Some old), table) \<and>
    upd_content u = None \<and> upd_embedding u = None \<and> upd_source u = None \<and>
    upd_tags u = Some ts \<longrightarrow>
      (\<exists>n table'. updateNote now this table i u = (Inr n, table') \<and>
         getNote this table' i = (Inr (Some n), table') \<and>
         content n = content old \<and> embedding n = embedding old \<and> source n = source old \<and>
         createdAt n = createdAt old \<and> tags n = Some ts \<and>
         updatedAt n = now \<and> (updatedAt old < updatedAt n) = (updatedAt old < now))) \<and>
   (client this \<noteq> None \<and> getNote this table i = (Inr (Some old), table) \<and>
    upd_embedding u = Some e \<longrightarrow>
      (\<exists>n table'. updateNote now this table i u = (Inr n, table') \<and>
         getNote this table' i = (Inr (Some n), table') \<and>
         embedding n = normalizeEmbedding e \<and> length (embedding n) = 1536))"
proof (intro conjI impI)
  assume a: "client this \<noteq> None \<and> getNote this table i = (Inr (Some old), table) \<and>
    upd_content u = None \<and> upd_embedding u = None \<and> upd_source u = None \<and>
    upd_tags u = Some ts"
  then obtain k r where k: "uuid_in i = Some k"
    and r: "filter (\<lambda>r. row_id r = k) table = [r]" and old: "old = toNote r"
    using getNote_Some by blast
  let ?p = "\<lparr>set_content = upd_content u,
            set_embedding = map_option normalizeEmbedding (upd_embedding u),
            set_tags = upd_tags u, set_source = upd_source u, set_updated_at = now\<rparr>"
  let ?t = "map (\<lambda>r. if row_id r = k then apply_patch ?p r else r) table"
  have 1: "updateNote now this table i u = (Inr (toNote (apply_patch ?p r)), ?t)"
    using a k r by (simp add: updateNote_unique)
  have 2: "getNote this ?t i = (Inr (Some (toNote (apply_patch ?p r))), ?t)"
    using a k r by (simp add: getNote_unique filter_after_patch)
  have 3: "content (toNote (apply_patch ?p r)) = content old \<and>
           embedding (toNote (apply_patch ?p r)) = embedding old \<and>
           source (toNote (apply_patch ?p r)) = source old \<and>
           createdAt (toNote (apply_patch ?p r)) = createdAt old \<and>
           tags (toNote (apply_patch ?p r)) = Some ts \<and>
           updatedAt (toNote (apply_patch ?p r)) = now"
    using a old by (simp add: toNote_def apply_patch_def)
  from 1 2 3 show "\<exists>n table'. updateNote now this table i u = (Inr n, table') \<and>
         getNote this table' i = (Inr (Some n), table') \<and>
         content n = content old \<and> embedding n = embedding old \<and> source n = source old \<and>
         createdAt n = createdAt old \<and> tags n = Some ts \<and>
         updatedAt n = now \<and> (updatedAt old < updatedAt n) = (updatedAt old < now)"
    by auto
next
  assume a: "client this \<noteq> None \<and> getNote this table i = (Inr (Some old), table) \<and>
    upd_embedding u = Some e"
  then obtain k r where k: "uuid_in i = Some k"
    and r: "filter (\<lambda>r. row_id r = k) table = [r]" and old: "old = toNote r"
    using getNote_Some by blast
  let ?p = "\<lparr>set_content = upd_content u,
            set_embedding = map_option normalizeEmbedding (upd_embedding u),
            set_tags = upd_tags u, set_source = upd_source u, set_updated_at = now\<rparr>"
  let ?t = "map (\<lambda>r. if row_id r = k then apply_patch ?p r else r) table"
  have 1: "updateNote now this table i u = (Inr (toNote (apply_patch ?p r)), ?t)"
    using a k r by (simp add: updateNote_unique)
  have 2: "getNote this ?t i = (Inr (Some (toNote (apply_patch ?p r))), ?t)"
    using a k r by (simp add: getNote_unique filter_after_patch)
  have 3: "embedding (toNote (apply_patch ?p r)) = normalizeEmbedding e"
    using a by (simp add: toNote_def apply_patch_def)
  from 1 2 3 show "\<exists>n table'. updateNote now this table i u = (Inr n, table') \<and>
         getNote this table' i = (Inr (Some n), table') \<and>
         embedding n = normalizeEmbedding e \<and> length (embedding n) = 1536"
    by (auto simp: length_normalizeEmbedding VECTOR_DIMENSIONS_def)
qed

theorem updateNote_tags_only_witness:
  "(let this = initialize (new_SupabaseStorage ''https://project.supabase.co'' ''anon-key'');
        r = \<lparr>row_id = ''6f1c2f0e-8a57-4d3b-9c55-0d7a0a3f1b21'', row_content = ''acorns'',
             row_embedding = replicate 1536 (0::real), row_tags = Some [''nuts''],
             row_source = \<lparr>url = ''https://example.org'', title = ''Example'', timestamp = 1000\<rparr>,
             created_at = 1000, updated_at = 1000\<rparr>;
        i = ''6f1c2f0e-8a57-4d3b-9c55-0d7a0a3f1b21'';
        u1 = \<lparr>upd_id = None, upd_content = None, upd_embedding = None, upd_tags = Some [''tree''],
              upd_source = None, upd_createdAt = None, upd_updatedAt = None\<rparr>;
        u2 = \<lparr>upd_id = None, upd_content = None, upd_embedding = Some [1, 2, 3], upd_tags = None,
              upd_source = None, upd_createdAt = None, upd_updatedAt = None\<rparr>
    in client this \<noteq> None \<and>
       getNote this [r] i = (Inr (Some (toNote r)), [r]) \<and>
       (\<exists>n table'. updateNote 5000 this [r] i u1 = (Inr n, table') \<and>
          getNote this table' i = (Inr (Some n), table') \<and>
          content n = ''acorns'' \<and> embedding n = replicate 1536 0 \<and>
          source n = \<lparr>url = ''https://example.org'', title = ''Example'', timestamp = 1000\<rparr> \<and>
          createdAt n = 1000 \<and> tags n = Some [''tree''] \<and> updatedAt n = 5000) \<and>
       (\<exists>n table'. updateNote 5000 this [r] i u2 = (Inr n, table') \<and>
          getNote this table' i = (Inr (Some n), table') \<and>
          embedding n = normalizeEmbedding [1, 2, 3] \<and> length (embedding n) = 1536))"
proof -
  define this where "this = initialize (new_SupabaseStorage ''https://project.supabase.co'' ''anon-key'')"
  define r where "r = \<lparr>row_id = ''6f1c2f0e-8a57-4d3b-9c55-0d7a0a3f1b21'', row_content = ''acorns'',
             row_embedding = replicate 1536 (0::real), row_tags = Some [''nuts''],
             row_source = \<lparr>url = ''https://example.org'', title = ''Example'', timestamp = 1000\<rparr>,
             created_at = 1000, updated_at = 1000\<rparr>"
  define i where "i = ''6f1c2f0e-8a57-4d3b-9c55-0d7a0a3f1b21''"
  define u1 :: "real PartialNote" where
    "u1 = \<lparr>upd_id = None, upd_content = None, upd_embedding = None, upd_tags = Some [''tree''],
              upd_source = None, upd_createdAt = None, upd_updatedAt = None\<rparr>"
  define u2 :: "real PartialNote" where
    "u2 = \<lparr>upd_id = None, upd_content = None, upd_embedding = Some [1, 2, 3], upd_tags = None,
              upd_source = None, upd_createdAt = None, upd_updatedAt = None\<rparr>"
  have c: "client this \<noteq> None"
    by (simp add: this_def initialize_def new_SupabaseStorage_def)
  have k: "uuid_in i = Some ''6f1c2f0e-8a57-4d3b-9c55-0d7a0a3f1b21''"
    unfolding i_def by code_simp
  have g: "getNote this [r] i = (Inr (Some (toNote r)), [r])"
    using c k by (intro getNote_unique) (simp_all add: r_def)
  have h1: "client this \<noteq> None \<and> getNote this [r] i = (Inr (Some (toNote r)), [r]) \<and>
    upd_content u1 = None \<and> upd_embedding u1 = None \<and> upd_source u1 = None \<and>
    upd_tags u1 = Some [''tree'']"
    using c g by (simp add: u1_def)
  have h2: "client this \<noteq> None \<and> getNote this [r] i = (Inr (Some (toNote r)), [r]) \<and>
    upd_embedding u2 = Some [1, 2, 3]"
    using c g by (simp add: u2_def)
  note t1 = updateNote_tags_only [THEN conjunct1, rule_format, OF h1, of 5000]
  note t2 = updateNote_tags_only [THEN conjunct2, rule_format, OF h2, of 5000]
  have v: "content (toNote r) = ''acorns'' \<and> embedding (toNote r) = replicate 1536 0 \<and>
      source (toNote r) = \<lparr>url = ''https://example.org'', title = ''Example'', timestamp = 1000\<rparr> \<and>
      createdAt (toNote r) = 1000"
    by (simp add: toNote_def r_def)
  from t1 v have t1': "\<exists>n table'. updateNote 5000 this [r] i u1 = (Inr n, table') \<and>
          getNote this table' i = (Inr (Some n), table') \<and>
          content n = ''acorns'' \<and> embedding n = replicate 1536 0 \<and>
          source n = \<lparr>url = ''https://example.org'', title = ''Example'', timestamp = 1000\<rparr> \<and>
          createdAt n = 1000 \<and> tags n = Some [''tree''] \<and> updatedAt n = 5000"
    by auto
  from c g t1' t2 show ?thesis
    unfolding this_def r_def i_def u1_def u2_def Let_def by blast
qed

text \<open>
  C5, as stated, fails: the stored updatedAt was written by the clock of the store, and
  a caller whose clock reads three seconds less moves updatedAt back.
\<close>

theorem updateNote_clock_counterexample:
  "fst (getNote (initialize (new_SupabaseStorage ''https://project.supabase.co'' ''anon-key''))
         [\<lparr>row_id = ''6f1c2f0e-8a57-4d3b-9c55-0d7a0a3f1b21'', row_content = ''acorns'',
           row_embedding = replicate 1536 (0::real), row_tags = Some [''nuts''],
           row_source = \<lparr>url = ''https://example.org'', title = ''Example'', timestamp = 1000\<rparr>,
           created_at = 1700000005000, updated_at = 1700000005000\<rparr>]
         ''6f1c2f0e-8a57-4d3b-9c55-0d7a0a3f1b21'')
   = Inr (Some \<lparr>note_id = ''6f1c2f0e-8a57-4d3b-9c55-0d7a0a3f1b21'', content = ''acorns'',
           embedding = replicate 1536 0, tags = Some [''nuts''],
           source = \<lparr>url = ''https://example.org'', title = ''Example'', timestamp = 1000\<rparr>,
           createdAt = 1700000005000, updatedAt = 1700000005000\<rparr>) \<and>
   fst (updateNote 1700000002000
         (initialize (new_SupabaseStorage ''https://project.supabase.co'' ''anon-key''))
         [\<lparr>row_id = ''6f1c2f0e-8a57-4d3b-9c55-0d7a0a3f1b21'', row_content = ''acorns'',
           row_embedding = replicate 1536 (0::real), row_tags = Some [''nuts''],
           row_source = \<lparr>url = ''https://example.org'', title = ''Example'', timestamp = 1000\<rparr>,
           created_at = 1700000005000, updated_at = 1700000005000\<rparr>]
         ''6f1c2f0e-8a57-4d3b-9c55-0d7a0a3f1b21''
         \<lparr>upd_id = None, upd_content = None, upd_embedding = None, upd_tags = Some [''tree''],
          upd_source = None, upd_createdAt = None, upd_updatedAt = None\<rparr>)
   = Inr \<lparr>note_id = ''6f1c2f0e-8a57-4d3b-9c55-0d7a0a3f1b21'', content = ''acorns'',
           embedding = replicate 1536 0, tags = Some [''tree''],
           source = \<lparr>url = ''https://example.org'', title = ''Example'', timestamp = 1000\<rparr>,
           createdAt = 1700000005000, updatedAt = 1700000002000\<rparr> \<and>
   \<not> (1700000005000::int) < 1700000002000"
proof -
  have k: "uuid_in ''6f1c2f0e-8a57-4d3b-9c55-0d7a0a3f1b21'' = Some ''6f1c2f0e-8a57-4d3b-9c55-0d7a0a3f1b21''"
    by code_simp
  show ?thesis
    by (simp add: getNote_def getNote_result_def db_select_by_id_def updateNote_def ensureClient_def
      initialize_def new_SupabaseStorage_def db_update_by_id_def single_def apply_patch_def
      toNote_def k)
qed

subsection \<open>Search by vector\<close>

lemma one_minus_Finite [simp]: "f8_minus (Finite a) (Finite b) = Finite (a - b)"
  by (simp add: f8_minus_def)

lemma one_minus_NaN [simp]: "f8_minus x NaN = NaN"
  by (simp add: f8_minus_def split: float8.splits)

lemma Finite_le [simp]: "Finite a \<le> Finite b \<longleftrightarrow> a \<le> b"
  by (simp add: less_eq_float8_def)

lemma Finite_less [simp]: "Finite a < Finite b \<longleftrightarrow> a < b"
  by (auto simp: less_float8_def less_eq_float8_def)

lemma le_NaN [simp]: "x \<le> NaN"
  by (simp add: less_eq_float8_def)

lemma NaN_le [simp]: "NaN \<le> x \<longleftrightarrow> x = NaN"
  by (simp add: less_eq_float8_def split: float8.splits)

lemma less_NaN [simp]: "x < NaN \<longleftrightarrow> x \<noteq> NaN"
  by (auto simp: less_float8_def less_eq_float8_def split: float8.splits)

lemma NaN_less [simp]: "\<not> NaN < x"
  by (auto simp: less_float8_def less_eq_float8_def split: float8.splits)
















end
